theory Spec2Isabelle
  imports Main "HOL-Library.Sublist"
begin

section \<open>Go values: panics, errors and formatted messages\<close>

text \<open>
  A Go call either returns or panics (a nil pointer dereference is a run-time panic).
  Functions that return \<open>(value, error)\<close> are modelled as returning the pair, each
  half an option: \<open>None\<close> is Go's \<open>nil\<close>.
\<close>

datatype 'a outcome = Panics | Returns 'a

text \<open>
  A Go \<open>error\<close> value: its dynamic type, as \<open>reflect.TypeOf\<close> prints it, and the text
  its \<open>Error()\<close> method gives.
\<close>

record go_error =
  errType :: string
  errText :: string

text \<open>
  An operand handed to \<open>fmt\<close>: the dynamic type's name and the text that the verb
  \<open>%v\<close> prints for it. Every operand that connection.go formats is a string, an error or
  a pointer with a \<open>String()\<close> method, for which \<open>%s\<close>, \<open>%v\<close> and \<open>%+v\<close> print the
  same text; none of them is the nil interface.
\<close>

record operand =
  goType :: string
  goText :: string

definition error_operand :: "go_error \<Rightarrow> operand" where
  "error_operand e = \<lparr>goType = errType e, goText = errText e\<rparr>"

definition string_operand :: "string \<Rightarrow> operand" where
  "string_operand s = \<lparr>goType = ''string'', goText = s\<rparr>"

text \<open>
  The operands left over when the format string is used up: \<open>type=value\<close>, separated
  by a comma and a space.
\<close>

fun extras :: "operand list \<Rightarrow> string" where
  "extras [] = []"
| "extras [a] = goType a @ ''='' @ goText a"
| "extras (a # b # bs) = goType a @ ''='' @ goText a @ '', '' @ extras (b # bs)"

text \<open>
  The fragment of \<open>fmt\<close>'s \<open>doPrintf\<close> that connection.go reaches: literal text is
  copied; \<open>%%\<close> prints a percent sign; the flag \<open>+\<close> is read and skipped; the verbs
  \<open>s\<close> and \<open>v\<close> print the next operand; a verb with no operand left prints
  \<open>%!verb(MISSING)\<close>; any other verb prints \<open>%!verb(type=value)\<close>; a format that
  ends after \<open>%\<close> prints \<open>%!(NOVERB)\<close>; and operands that no verb consumed are
  appended as \<open>%!(EXTRA type=value, type=value)\<close>.
\<close>

fun doPrintf :: "string \<Rightarrow> operand list \<Rightarrow> string"
  and doVerb :: "string \<Rightarrow> operand list \<Rightarrow> string" where
  "doPrintf [] [] = []"
| "doPrintf [] (a # as) = ''%!(EXTRA '' @ extras (a # as) @ '')''"
| "doPrintf (c # fs) as =
     (if c = CHR ''%'' then doVerb fs as else c # doPrintf fs as)"
| "doVerb [] as = ''%!(NOVERB)'' @ doPrintf [] as"
| "doVerb (v # fs) as =
     (if v = CHR ''+'' then doVerb fs as
      else if v = CHR ''%'' then CHR ''%'' # doPrintf fs as
      else (case as of
              [] \<Rightarrow> ''%!'' @ [v] @ ''(MISSING)'' @ doPrintf fs []
            | a # rest \<Rightarrow>
                (if v = CHR ''s'' \<or> v = CHR ''v'' then goText a
                 else ''%!'' @ [v] @ ''('' @ goType a @ ''='' @ goText a @ '')'')
                @ doPrintf fs rest))"

text \<open>\<open>errors.New\<close>, and \<open>fmt.Errorf\<close> for a format without \<open>%w\<close>.\<close>

definition errors_New :: "string \<Rightarrow> go_error" where
  "errors_New s = \<lparr>errType = ''*errors.errorString'', errText = s\<rparr>"

definition Errorf :: "string \<Rightarrow> operand list \<Rightarrow> go_error" where
  "Errorf format as = errors_New (doPrintf format as)"

section \<open>The options and the transport configuration\<close>

text \<open>
  \<open>Options\<close> as connection.go declares it. The pointer fields are options; a
  \<open>tls.Config\<close> is an opaque reference.
\<close>

type_synonym tls_Config = nat

record Options =
  PollIntervalSeconds :: int
  BatchSize :: int
  Host :: string
  Port :: int
  Username :: string
  Password :: string
  Database :: string
  MaxMessageSize :: int
  MaxFrameSize :: int
  ConnectTimeout :: int
  SocketTimeout :: int
  TLSConfig :: "tls_Config option"
  TBinaryStrictRead :: "bool option"
  TBinaryStrictWrite :: "bool option"
  THeaderProtocolID :: "int option"

definition DefaultOptions :: Options where
  "DefaultOptions =
     \<lparr>PollIntervalSeconds = 5, BatchSize = 10000, Host = [], Port = 0,
      Username = [], Password = [], Database = [],
      MaxMessageSize = 0, MaxFrameSize = 0,
      ConnectTimeout = 5000, SocketTimeout = 5000,
      TLSConfig = None, TBinaryStrictRead = None, TBinaryStrictWrite = None,
      THeaderProtocolID = None\<rparr>"

text \<open>
  \<open>thrift.TConfiguration\<close>, with the eight fields that \<open>Connect\<close> and
  \<open>ConnectWithUser\<close> fill in.
\<close>

record TConfiguration =
  tc_MaxMessageSize :: int
  tc_MaxFrameSize :: int
  tc_ConnectTimeout :: int
  tc_SocketTimeout :: int
  tc_TLSConfig :: "tls_Config option"
  tc_TBinaryStrictRead :: "bool option"
  tc_TBinaryStrictWrite :: "bool option"
  tc_THeaderProtocolID :: "int option"

text \<open>
  A socket made by \<open>thrift.NewTSocketConf\<close> and the client made from it by
  \<open>inf.NewTCLIServiceClientFactory\<close>: what they were built from.
\<close>

record TSocket =
  sock_hostPort :: string
  sock_conf :: TConfiguration

record TCLIServiceClient =
  client_transport :: TSocket
  client_protocol :: TConfiguration

definition NewTSocketConf :: "string \<Rightarrow> TConfiguration \<Rightarrow> TSocket option" where
  "NewTSocketConf hostPort tc = Some \<lparr>sock_hostPort = hostPort, sock_conf = tc\<rparr>"

definition NewTBinaryProtocolFactoryConf :: "TConfiguration \<Rightarrow> TConfiguration" where
  "NewTBinaryProtocolFactoryConf tc = tc"

definition NewTCLIServiceClientFactory ::
  "TSocket \<Rightarrow> TConfiguration \<Rightarrow> TCLIServiceClient option" where
  "NewTCLIServiceClientFactory transport protocol =
     Some \<lparr>client_transport = transport, client_protocol = protocol\<rparr>"

section \<open>The generated service types (package inf)\<close>

text \<open>
  Modelled from the spec: the status-code enumeration of package inf, which is not among
  the sources. The spec has two success codes, "success" and "success with info", and
  "every other enumerated code"; connection.go names the two as
  \<open>TStatusCode_SUCCESS_STATUS\<close> and \<open>TStatusCode_SUCCESS_WITH_INFO_STATUS\<close>. The other
  three are those of the HiveServer2 interface that package inf is generated from.
\<close>

datatype TStatusCode =
    SUCCESS_STATUS
  | SUCCESS_WITH_INFO_STATUS
  | STILL_EXECUTING_STATUS
  | ERROR_STATUS
  | INVALID_HANDLE_STATUS

text \<open>
  Modelled from the spec: the structs of package inf, which are not among the sources,
  each with the fields that connection.go reads or writes. Handles are opaque,
  server-assigned identifiers. The \<open>text_\<close> field of a status or a response is the
  text that \<open>%+v\<close> prints for the struct's fields (for a status, the server's status
  text); it is carried as data.
\<close>

datatype TSessionHandle = SessionId nat

datatype TOperationHandle = OperationId nat

record TStatus =
  StatusCode :: TStatusCode
  text_Status :: string

record TOpenSessionReq =
  ClientProtocol :: int
  req_Username :: "string option"
  req_Password :: "string option"

record TOpenSessionResp =
  Status_OpenResp :: "TStatus option"
  SessionHandle_OpenResp :: "TSessionHandle option"

record TCloseSessionReq =
  SessionHandle_CloseReq :: "TSessionHandle option"

record TCloseSessionResp =
  Status_CloseResp :: "TStatus option"
  text_CloseResp :: string

record TExecuteStatementReq =
  SessionHandle_ExecReq :: "TSessionHandle option"
  Statement :: string

record TExecuteStatementResp =
  Status_ExecResp :: "TStatus option"
  OperationHandle_ExecResp :: "TOperationHandle option"
  text_ExecResp :: string

text \<open>
  Modelled from the spec: the constructors of package inf, which are not among the
  sources. Each gives a request with no field set. Whatever protocol version
  \<open>NewTOpenSessionReq\<close> starts from, both of its callers overwrite it.
\<close>

definition NewTOpenSessionReq :: TOpenSessionReq where
  "NewTOpenSessionReq = \<lparr>ClientProtocol = 0, req_Username = None, req_Password = None\<rparr>"

definition NewTCloseSessionReq :: TCloseSessionReq where
  "NewTCloseSessionReq = \<lparr>SessionHandle_CloseReq = None\<rparr>"

definition NewTExecuteStatementReq :: TExecuteStatementReq where
  "NewTExecuteStatementReq = \<lparr>SessionHandle_ExecReq = None, Statement = []\<rparr>"

text \<open>
  Modelled from the spec: \<open>GetStatusCode\<close> and the \<open>String\<close> methods of package inf,
  which are not among the sources. The getter reads the field through its receiver, so
  on a nil receiver it panics: the status classification has a code to look at only for
  a status that is there. \<open>String\<close> gives \<open><nil>\<close> for a nil receiver and the struct's
  name around the text of its fields otherwise.
\<close>

definition GetStatusCode :: "TStatus option \<Rightarrow> TStatusCode outcome" where
  "GetStatusCode p = (case p of None \<Rightarrow> Panics | Some st \<Rightarrow> Returns (StatusCode st))"

definition TStatus_String :: "TStatus option \<Rightarrow> string" where
  "TStatus_String p =
     (case p of None \<Rightarrow> ''<nil>'' | Some st \<Rightarrow> ''TStatus('' @ text_Status st @ '')'')"

definition TCloseSessionResp_String :: "TCloseSessionResp option \<Rightarrow> string" where
  "TCloseSessionResp_String p =
     (case p of
        None \<Rightarrow> ''<nil>''
      | Some r \<Rightarrow> ''TCloseSessionResp('' @ text_CloseResp r @ '')'')"

definition TExecuteStatementResp_String :: "TExecuteStatementResp option \<Rightarrow> string" where
  "TExecuteStatementResp_String p =
     (case p of
        None \<Rightarrow> ''<nil>''
      | Some r \<Rightarrow> ''TExecuteStatementResp('' @ text_ExecResp r @ '')'')"

definition close_resp_operand :: "TCloseSessionResp option \<Rightarrow> operand" where
  "close_resp_operand p =
     \<lparr>goType = ''*inf.TCloseSessionResp'', goText = TCloseSessionResp_String p\<rparr>"

definition exec_resp_operand :: "TExecuteStatementResp option \<Rightarrow> operand" where
  "exec_resp_operand p =
     \<lparr>goType = ''*inf.TExecuteStatementResp'', goText = TExecuteStatementResp_String p\<rparr>"

section \<open>The network and the server\<close>

text \<open>
  What the program does to the outside world is a log of calls, oldest first: opening a
  socket and the three remote procedure calls, each through a client.
\<close>

datatype rpc =
    TransportOpen TSocket
  | OpenSessionCall TCLIServiceClient TOpenSessionReq
  | CloseSessionCall TCLIServiceClient TCloseSessionReq
  | ExecuteStatementCall TCLIServiceClient TExecuteStatementReq

text \<open>
  The outside world answers each call with a response and an error, as the generated
  client returns them. The answer may depend on everything that was called before (the
  log), on the client and on the request: any deterministic server and network is such
  a record.
\<close>

record env =
  transportOpen :: "rpc list \<Rightarrow> TSocket \<Rightarrow> go_error option"
  openSession ::
    "rpc list \<Rightarrow> TCLIServiceClient \<Rightarrow> TOpenSessionReq
       \<Rightarrow> TOpenSessionResp option \<times> go_error option"
  closeSession ::
    "rpc list \<Rightarrow> TCLIServiceClient \<Rightarrow> TCloseSessionReq
       \<Rightarrow> TCloseSessionResp option \<times> go_error option"
  executeStatement ::
    "rpc list \<Rightarrow> TCLIServiceClient \<Rightarrow> TExecuteStatementReq
       \<Rightarrow> TExecuteStatementResp option \<times> go_error option"

section \<open>connection.go\<close>

record Connection =
  thrift :: "TCLIServiceClient option"
  session :: "TSessionHandle option"
  options :: Options

text \<open>
  Modelled from the spec: \<open>RowSet\<close> and \<open>newRowSet\<close>, which are not among the sources.
  A cursor that has just been created "holds the Session's transport binding, the
  OperationHandle, and the options", and no call has been made for it yet.
\<close>

record RowSet =
  rs_thrift :: "TCLIServiceClient option"
  rs_operation :: "TOperationHandle option"
  rs_options :: Options

definition newRowSet ::
  "TCLIServiceClient option \<Rightarrow> TOperationHandle option \<Rightarrow> Options \<Rightarrow> RowSet" where
  "newRowSet cl operation opts =
     \<lparr>rs_thrift = cl, rs_operation = operation, rs_options = opts\<rparr>"

text \<open>The configuration literal at the head of \<open>Connect\<close> and of \<open>ConnectWithUser\<close>.\<close>

definition configuration_of :: "Options \<Rightarrow> TConfiguration" where
  "configuration_of opts =
     \<lparr>tc_MaxMessageSize = MaxMessageSize opts,
      tc_MaxFrameSize = MaxFrameSize opts,
      tc_ConnectTimeout = ConnectTimeout opts,
      tc_SocketTimeout = SocketTimeout opts,
      tc_TLSConfig = TLSConfig opts,
      tc_TBinaryStrictRead = TBinaryStrictRead opts,
      tc_TBinaryStrictWrite = TBinaryStrictWrite opts,
      tc_THeaderProtocolID = THeaderProtocolID opts\<rparr>"

text \<open>
  \<open>Connect\<close> and \<open>ConnectWithUser\<close>, statement by statement. \<open>transport.Open()\<close> is
  called before the test \<open>transport == nil\<close>, so a nil transport would panic there; an
  error from \<open>Open\<close> or from \<open>OpenSession\<close> is returned as it is; and
  \<open>session.SessionHandle\<close> dereferences the response, so a nil response with a nil
  error is a panic. Each call made is appended to the log.
\<close>

definition Connect ::
  "env \<Rightarrow> string \<Rightarrow> Options \<Rightarrow> rpc list
     \<Rightarrow> (Connection option \<times> go_error option) outcome \<times> rpc list" where
  "Connect e hostPort opts log =
     (let tc = configuration_of opts;
          transport = NewTSocketConf hostPort tc
      in case transport of
           None \<Rightarrow> (Panics, log)
         | Some sock \<Rightarrow>
             (case transportOpen e log sock of
                Some err \<Rightarrow> (Returns (None, Some err), log @ [TransportOpen sock])
              | None \<Rightarrow>
                  (if transport = None
                   then (Returns (None, Some (errors_New ''nil thrift transport'')),
                         log @ [TransportOpen sock])
                   else
                     (let protocol = NewTBinaryProtocolFactoryConf tc;
                          client = NewTCLIServiceClientFactory sock protocol;
                          s = NewTOpenSessionReq\<lparr>ClientProtocol := 6\<rparr>
                      in (case client of
                           None \<Rightarrow> (Panics, log @ [TransportOpen sock])
                         | Some cl \<Rightarrow>
                             (case openSession e (log @ [TransportOpen sock]) cl s of
                                (sess, Some err) \<Rightarrow>
                                  (Returns (None, Some err),
                                   log @ [TransportOpen sock, OpenSessionCall cl s])
                              | (None, None) \<Rightarrow>
                                  (Panics, log @ [TransportOpen sock, OpenSessionCall cl s])
                              | (Some r, None) \<Rightarrow>
                                  (Returns
                                     (Some \<lparr>thrift = client,
                                            session = SessionHandle_OpenResp r,
                                            options = opts\<rparr>, None),
                                   log @ [TransportOpen sock, OpenSessionCall cl s])))))))"

definition ConnectWithUser ::
  "env \<Rightarrow> string \<Rightarrow> string \<Rightarrow> string \<Rightarrow> Options \<Rightarrow> rpc list
     \<Rightarrow> (Connection option \<times> go_error option) outcome \<times> rpc list" where
  "ConnectWithUser e hostPort username password opts log =
     (let tc = configuration_of opts;
          transport = NewTSocketConf hostPort tc
      in case transport of
           None \<Rightarrow> (Panics, log)
         | Some sock \<Rightarrow>
             (case transportOpen e log sock of
                Some err \<Rightarrow> (Returns (None, Some err), log @ [TransportOpen sock])
              | None \<Rightarrow>
                  (if transport = None
                   then (Returns (None, Some (errors_New ''nil thrift transport'')),
                         log @ [TransportOpen sock])
                   else
                     (let protocol = NewTBinaryProtocolFactoryConf tc;
                          client = NewTCLIServiceClientFactory sock protocol;
                          s = NewTOpenSessionReq
                                \<lparr>ClientProtocol := 6,
                                 req_Username := Some username,
                                 req_Password := Some password\<rparr>
                      in (case client of
                           None \<Rightarrow> (Panics, log @ [TransportOpen sock])
                         | Some cl \<Rightarrow>
                             (case openSession e (log @ [TransportOpen sock]) cl s of
                                (sess, Some err) \<Rightarrow>
                                  (Returns (None, Some err),
                                   log @ [TransportOpen sock, OpenSessionCall cl s])
                              | (None, None) \<Rightarrow>
                                  (Panics, log @ [TransportOpen sock, OpenSessionCall cl s])
                              | (Some r, None) \<Rightarrow>
                                  (Returns
                                     (Some \<lparr>thrift = client,
                                            session = SessionHandle_OpenResp r,
                                            options = opts\<rparr>, None),
                                   log @ [TransportOpen sock, OpenSessionCall cl s])))))))"

definition isOpen :: "Connection \<Rightarrow> bool" where
  "isOpen c = (session c \<noteq> None)"

text \<open>
  \<open>Close\<close> changes the connection it is called on: the model returns the connection
  as it is afterwards. The client is reached through \<open>c.thrift\<close> only if the
  connection is open; a nil client panics there.
\<close>

definition Close ::
  "env \<Rightarrow> Connection \<Rightarrow> rpc list \<Rightarrow> go_error option outcome \<times> Connection \<times> rpc list" where
  "Close e c log =
     (if isOpen c then
        (let closeReq = NewTCloseSessionReq\<lparr>SessionHandle_CloseReq := session c\<rparr>
         in case thrift c of
              None \<Rightarrow> (Panics, c, log)
            | Some cl \<Rightarrow>
                (case closeSession e log cl closeReq of
                   (resp, Some err) \<Rightarrow>
                     (Returns
                        (Some (Errorf ''Error closing session: ''
                                 [close_resp_operand resp, error_operand err])),
                      c, log @ [CloseSessionCall cl closeReq])
                 | (resp, None) \<Rightarrow>
                     (Returns None, c\<lparr>session := None\<rparr>,
                      log @ [CloseSessionCall cl closeReq])))
      else (Returns None, c, log))"

definition isSuccessStatus :: "TStatus option \<Rightarrow> bool outcome" where
  "isSuccessStatus p =
     (case GetStatusCode p of
        Panics \<Rightarrow> Panics
      | Returns status \<Rightarrow>
          Returns (status = SUCCESS_STATUS \<or> status = SUCCESS_WITH_INFO_STATUS))"

text \<open>
  \<open>Query\<close> and \<open>Exec\<close>, statement by statement. The request takes \<open>c.session\<close>
  whatever it is; a nil client panics at the call; \<open>resp.Status\<close> dereferences the
  response, so a nil response with a nil error is a panic, as is a panic of
  \<open>isSuccessStatus\<close>.
\<close>

definition Query ::
  "env \<Rightarrow> Connection \<Rightarrow> string \<Rightarrow> rpc list
     \<Rightarrow> (RowSet option \<times> go_error option) outcome \<times> rpc list" where
  "Query e c query log =
     (let executeReq =
            NewTExecuteStatementReq
              \<lparr>SessionHandle_ExecReq := session c, Statement := query\<rparr>
      in case thrift c of
           None \<Rightarrow> (Panics, log)
         | Some cl \<Rightarrow>
             (case executeStatement e log cl executeReq of
                (resp, Some err) \<Rightarrow>
                  (Returns
                     (None,
                      Some (Errorf ''Error in ExecuteStatement: %+v, %v''
                              [exec_resp_operand resp, error_operand err])),
                   log @ [ExecuteStatementCall cl executeReq])
              | (None, None) \<Rightarrow> (Panics, log @ [ExecuteStatementCall cl executeReq])
              | (Some r, None) \<Rightarrow>
                  (case isSuccessStatus (Status_ExecResp r) of
                     Panics \<Rightarrow> (Panics, log @ [ExecuteStatementCall cl executeReq])
                   | Returns ok \<Rightarrow>
                       (if \<not> ok then
                          (Returns
                             (None,
                              Some (Errorf ''Error from server: %s''
                                      [string_operand (TStatus_String (Status_ExecResp r))])),
                           log @ [ExecuteStatementCall cl executeReq])
                        else
                          (Returns
                             (Some (newRowSet (thrift c) (OperationHandle_ExecResp r)
                                      (options c)),
                              None),
                           log @ [ExecuteStatementCall cl executeReq])))))"

definition Exec ::
  "env \<Rightarrow> Connection \<Rightarrow> string \<Rightarrow> rpc list
     \<Rightarrow> (TExecuteStatementResp option \<times> go_error option) outcome \<times> rpc list" where
  "Exec e c query log =
     (let executeReq =
            NewTExecuteStatementReq
              \<lparr>SessionHandle_ExecReq := session c, Statement := query\<rparr>
      in case thrift c of
           None \<Rightarrow> (Panics, log)
         | Some cl \<Rightarrow>
             (case executeStatement e log cl executeReq of
                (resp, Some err) \<Rightarrow>
                  (Returns
                     (None,
                      Some (Errorf ''Error in ExecuteStatement: %+v, %v''
                              [exec_resp_operand resp, error_operand err])),
                   log @ [ExecuteStatementCall cl executeReq])
              | (None, None) \<Rightarrow> (Panics, log @ [ExecuteStatementCall cl executeReq])
              | (Some r, None) \<Rightarrow>
                  (case isSuccessStatus (Status_ExecResp r) of
                     Panics \<Rightarrow> (Panics, log @ [ExecuteStatementCall cl executeReq])
                   | Returns ok \<Rightarrow>
                       (if \<not> ok then
                          (Returns
                             (None,
                              Some (Errorf ''Error from server: %s''
                                      [string_operand (TStatus_String (Status_ExecResp r))])),
                           log @ [ExecuteStatementCall cl executeReq])
                        else
                          (Returns (Some r, None),
                           log @ [ExecuteStatementCall cl executeReq])))))"

section \<open>The session-open procedure of the specification\<close>

text \<open>
  The specification describes one procedure for opening a session, "optionally carrying
  a username/password pair in a separate entry point", over "one request type with
  optional fields": open a transport binding to the endpoint with the transport
  parameters of the options, send the open-session request with the fixed client
  protocol version and the credentials if there are any, and wrap the handle of the
  reply. This definition follows those words; it is what \<open>Connect\<close> and
  \<open>ConnectWithUser\<close> are compared with.
\<close>

definition session_open_procedure ::
  "env \<Rightarrow> string \<Rightarrow> (string \<times> string) option \<Rightarrow> Options \<Rightarrow> rpc list
     \<Rightarrow> (Connection option \<times> go_error option) outcome \<times> rpc list" where
  "session_open_procedure e endpoint credentials opts log =
     (let binding = \<lparr>sock_hostPort = endpoint, sock_conf = configuration_of opts\<rparr>;
          cl = \<lparr>client_transport = binding, client_protocol = configuration_of opts\<rparr>;
          request = \<lparr>ClientProtocol = 6,
                     req_Username = map_option fst credentials,
                     req_Password = map_option snd credentials\<rparr>
      in case transportOpen e log binding of
           Some err \<Rightarrow> (Returns (None, Some err), log @ [TransportOpen binding])
         | None \<Rightarrow>
             (case openSession e (log @ [TransportOpen binding]) cl request of
                (reply, Some err) \<Rightarrow>
                  (Returns (None, Some err),
                   log @ [TransportOpen binding, OpenSessionCall cl request])
              | (None, None) \<Rightarrow>
                  (Panics, log @ [TransportOpen binding, OpenSessionCall cl request])
              | (Some r, None) \<Rightarrow>
                  (Returns
                     (Some \<lparr>thrift = Some cl, session = SessionHandle_OpenResp r,
                            options = opts\<rparr>, None),
                   log @ [TransportOpen binding, OpenSessionCall cl request])))"

section \<open>Concrete connections and servers\<close>

text \<open>
  The socket and the client that \<open>Connect\<close> and \<open>ConnectWithUser\<close> build for an
  endpoint and options; those for \<open>localhost:10000\<close> with the default options, an open
  connection through that client, and the same connection after a successful
  \<open>Close\<close>.
\<close>

definition socket_for :: "string \<Rightarrow> Options \<Rightarrow> TSocket" where
  "socket_for hostPort opts =
     \<lparr>sock_hostPort = hostPort, sock_conf = configuration_of opts\<rparr>"

definition client_for :: "string \<Rightarrow> Options \<Rightarrow> TCLIServiceClient" where
  "client_for hostPort opts =
     \<lparr>client_transport = socket_for hostPort opts,
      client_protocol = configuration_of opts\<rparr>"

definition local_socket :: TSocket where
  "local_socket = socket_for ''localhost:10000'' DefaultOptions"

definition local_client :: TCLIServiceClient where
  "local_client = client_for ''localhost:10000'' DefaultOptions"

definition open_conn :: Connection where
  "open_conn =
     \<lparr>thrift = Some local_client, session = Some (SessionId 7), options = DefaultOptions\<rparr>"

definition closed_conn :: Connection where
  "closed_conn =
     \<lparr>thrift = Some local_client, session = None, options = DefaultOptions\<rparr>"

definition ok_status :: TStatus where
  "ok_status = \<lparr>StatusCode = SUCCESS_STATUS, text_Status = ''{StatusCode:SUCCESS_STATUS}''\<rparr>"

definition error_status :: TStatus where
  "error_status =
     \<lparr>StatusCode = ERROR_STATUS, text_Status = ''{StatusCode:ERROR_STATUS}''\<rparr>"

definition eof_error :: go_error where
  "eof_error = \<lparr>errType = ''thrift.tTransportException'', errText = ''EOF''\<rparr>"

text \<open>A server that accepts everything.\<close>

definition healthy_server :: env where
  "healthy_server =
     \<lparr>transportOpen = (\<lambda>log sock. None),
      openSession = (\<lambda>log cl req.
        (Some \<lparr>Status_OpenResp = Some ok_status,
               SessionHandle_OpenResp = Some (SessionId 7)\<rparr>, None)),
      closeSession = (\<lambda>log cl req.
        (Some \<lparr>Status_CloseResp = Some ok_status, text_CloseResp = ''{Status:ok}''\<rparr>,
         None)),
      executeStatement = (\<lambda>log cl req.
        (Some \<lparr>Status_ExecResp = Some ok_status,
               OperationHandle_ExecResp = Some (OperationId 1),
               text_ExecResp = ''{Status:ok}''\<rparr>, None))\<rparr>"

text \<open>
  A server that answers every call at the transport level and puts the status code
  \<open>ERROR_STATUS\<close> and no handle in every reply.
\<close>

definition refusing_server :: env where
  "refusing_server =
     \<lparr>transportOpen = (\<lambda>log sock. None),
      openSession = (\<lambda>log cl req.
        (Some \<lparr>Status_OpenResp = Some error_status, SessionHandle_OpenResp = None\<rparr>,
         None)),
      closeSession = (\<lambda>log cl req.
        (Some \<lparr>Status_CloseResp = Some error_status, text_CloseResp = ''{Status:error}''\<rparr>,
         None)),
      executeStatement = (\<lambda>log cl req.
        (Some \<lparr>Status_ExecResp = Some error_status, OperationHandle_ExecResp = None,
               text_ExecResp = ''{Status:error}''\<rparr>, None))\<rparr>"

text \<open>
  A server whose open-session reply has a success status and no session handle.
\<close>

definition handleless_server :: env where
  "handleless_server =
     healthy_server
       \<lparr>openSession := (\<lambda>log cl req.
          (Some \<lparr>Status_OpenResp = Some ok_status, SessionHandle_OpenResp = None\<rparr>,
           None))\<rparr>"

text \<open>A network on which the socket opens and every remote call fails.\<close>

definition broken_link :: env where
  "broken_link =
     \<lparr>transportOpen = (\<lambda>log sock. None),
      openSession = (\<lambda>log cl req. (None, Some eof_error)),
      closeSession = (\<lambda>log cl req. (None, Some eof_error)),
      executeStatement = (\<lambda>log cl req. (None, Some eof_error))\<rparr>"

text \<open>A server whose execute-statement reply carries no status at all.\<close>

definition statusless_server :: env where
  "statusless_server =
     healthy_server
       \<lparr>executeStatement := (\<lambda>log cl req.
          (Some \<lparr>Status_ExecResp = None, OperationHandle_ExecResp = Some (OperationId 1),
                 text_ExecResp = ''{Status:<nil>}''\<rparr>, None))\<rparr>"

section \<open>Auxiliary facts\<close>

lemma doPrintf_server_error:
  "doPrintf ''Error from server: %s'' [a] = ''Error from server: '' @ goText a"
  by simp

lemma doPrintf_closing:
  "doPrintf ''Error closing session: '' [a, b] =
     ''Error closing session: %!(EXTRA '' @ goType a @ ''='' @ goText a @ '', ''
       @ goType b @ ''='' @ goText b @ '')''"
  by simp

lemma exec_request:
  "NewTExecuteStatementReq\<lparr>SessionHandle_ExecReq := h, Statement := q\<rparr> =
     \<lparr>SessionHandle_ExecReq = h, Statement = q\<rparr>"
  by (simp add: NewTExecuteStatementReq_def)

lemma close_request:
  "NewTCloseSessionReq\<lparr>SessionHandle_CloseReq := h\<rparr> = \<lparr>SessionHandle_CloseReq = h\<rparr>"
  by (simp add: NewTCloseSessionReq_def)

lemma server_error_text:
  "Errorf ''Error from server: %s'' [string_operand t] =
     errors_New (''Error from server: '' @ t)"
  by (simp only: Errorf_def doPrintf_server_error) (simp add: string_operand_def)

lemma Close_rpc_fails:
  assumes "isOpen c" and "thrift c = Some cl"
    and "closeSession e log cl \<lparr>SessionHandle_CloseReq = session c\<rparr> = (resp, Some err)"
  shows "Close e c log =
           (Returns (Some (Errorf ''Error closing session: ''
                             [close_resp_operand resp, error_operand err])),
            c, log @ [CloseSessionCall cl \<lparr>SessionHandle_CloseReq = session c\<rparr>])"
  using assms by (simp add: Close_def close_request Let_def)

lemma Close_rpc_succeeds:
  assumes "isOpen c" and "thrift c = Some cl"
    and "closeSession e log cl \<lparr>SessionHandle_CloseReq = session c\<rparr> = (resp, None)"
  shows "Close e c log =
           (Returns None, c\<lparr>session := None\<rparr>,
            log @ [CloseSessionCall cl \<lparr>SessionHandle_CloseReq = session c\<rparr>])"
  using assms by (simp add: Close_def close_request Let_def)

lemma Close_log_open:
  assumes "isOpen c" and "thrift c = Some cl"
  shows "snd (snd (Close e c log)) =
           log @ [CloseSessionCall cl \<lparr>SessionHandle_CloseReq = session c\<rparr>]"
  using assms by (simp add: Close_def close_request Let_def split: prod.splits option.splits)

lemma Exec_status:
  assumes "thrift c = Some cl"
    and "executeStatement e log cl \<lparr>SessionHandle_ExecReq = session c, Statement = q\<rparr>
           = (Some r, None)"
    and "Status_ExecResp r = Some st"
  shows "fst (Exec e c q log) =
           (if StatusCode st = SUCCESS_STATUS \<or> StatusCode st = SUCCESS_WITH_INFO_STATUS
            then Returns (Some r, None)
            else Returns (None, Some (errors_New
                   (''Error from server: '' @ TStatus_String (Some st)))))"
  using assms
  by (simp add: Exec_def exec_request isSuccessStatus_def GetStatusCode_def server_error_text)

lemma Query_status:
  assumes "thrift c = Some cl"
    and "executeStatement e log cl \<lparr>SessionHandle_ExecReq = session c, Statement = q\<rparr>
           = (Some r, None)"
    and "Status_ExecResp r = Some st"
  shows "fst (Query e c q log) =
           (if StatusCode st = SUCCESS_STATUS \<or> StatusCode st = SUCCESS_WITH_INFO_STATUS
            then Returns (Some (newRowSet (Some cl) (OperationHandle_ExecResp r) (options c)),
                          None)
            else Returns (None, Some (errors_New
                   (''Error from server: '' @ TStatus_String (Some st)))))"
  using assms
  by (simp add: Query_def exec_request isSuccessStatus_def GetStatusCode_def server_error_text)

lemma Connect_reply:
  assumes "transportOpen e log (socket_for hostPort opts) = None"
    and "openSession e (log @ [TransportOpen (socket_for hostPort opts)])
           (client_for hostPort opts)
           \<lparr>ClientProtocol = 6, req_Username = None, req_Password = None\<rparr> = (Some r, None)"
  shows "fst (Connect e hostPort opts log) =
           Returns (Some \<lparr>thrift = Some (client_for hostPort opts),
                          session = SessionHandle_OpenResp r, options = opts\<rparr>, None)"
  using assms
  by (simp add: Connect_def NewTSocketConf_def NewTBinaryProtocolFactoryConf_def
      NewTCLIServiceClientFactory_def NewTOpenSessionReq_def socket_for_def client_for_def
      Let_def)

lemma ConnectWithUser_reply:
  assumes "transportOpen e log (socket_for hostPort opts) = None"
    and "openSession e (log @ [TransportOpen (socket_for hostPort opts)])
           (client_for hostPort opts)
           \<lparr>ClientProtocol = 6, req_Username = Some u, req_Password = Some p\<rparr>
           = (Some r, None)"
  shows "fst (ConnectWithUser e hostPort u p opts log) =
           Returns (Some \<lparr>thrift = Some (client_for hostPort opts),
                          session = SessionHandle_OpenResp r, options = opts\<rparr>, None)"
  using assms
  by (simp add: ConnectWithUser_def NewTSocketConf_def NewTBinaryProtocolFactoryConf_def
      NewTCLIServiceClientFactory_def NewTOpenSessionReq_def socket_for_def client_for_def
      Let_def)

lemma Connect_refines:
  "Connect e hostPort opts log = session_open_procedure e hostPort None opts log"
  by (simp add: Connect_def session_open_procedure_def NewTSocketConf_def
      NewTBinaryProtocolFactoryConf_def NewTCLIServiceClientFactory_def
      NewTOpenSessionReq_def Let_def split: option.splits prod.splits)

lemma ConnectWithUser_refines:
  "ConnectWithUser e hostPort u p opts log =
     session_open_procedure e hostPort (Some (u, p)) opts log"
  by (simp add: ConnectWithUser_def session_open_procedure_def NewTSocketConf_def
      NewTBinaryProtocolFactoryConf_def NewTCLIServiceClientFactory_def
      NewTOpenSessionReq_def Let_def split: option.splits prod.splits)

lemma nil_status_panics:
  assumes "thrift c = Some cl"
    and "executeStatement e log cl \<lparr>SessionHandle_ExecReq = session c, Statement = q\<rparr>
           = (Some r, None)"
    and "Status_ExecResp r = None"
  shows "fst (Query e c q log) = Panics \<and> fst (Exec e c q log) = Panics"
  using assms
  by (simp add: Query_def Exec_def exec_request isSuccessStatus_def GetStatusCode_def)

lemma closing_text_parts:
  "sublist (goText a)
     (''Error closing session: %!(EXTRA '' @ goType a @ ''='' @ goText a @ '', ''
        @ goType b @ ''='' @ goText b @ '')'')"
  "sublist (goText b)
     (''Error closing session: %!(EXTRA '' @ goType a @ ''='' @ goText a @ '', ''
        @ goType b @ ''='' @ goText b @ '')'')"
proof -
  have "sublist (goText a)
     ((''Error closing session: %!(EXTRA '' @ goType a @ ''='') @ goText a @ ('', ''
        @ goType b @ ''='' @ goText b @ '')''))"
    by (rule sublist_appendI)
  then show "sublist (goText a)
     (''Error closing session: %!(EXTRA '' @ goType a @ ''='' @ goText a @ '', ''
        @ goType b @ ''='' @ goText b @ '')'')" by simp
  have "sublist (goText b)
     ((''Error closing session: %!(EXTRA '' @ goType a @ ''='' @ goText a @ '', ''
        @ goType b @ ''='') @ goText b @ '')'')"
    by (rule sublist_appendI)
  then show "sublist (goText b)
     (''Error closing session: %!(EXTRA '' @ goType a @ ''='' @ goText a @ '', ''
        @ goType b @ ''='' @ goText b @ '')'')" by simp
qed

lemma Query_log:
  "thrift c = Some cl \<Longrightarrow>
   snd (Query e c q log) =
     log @ [ExecuteStatementCall cl \<lparr>SessionHandle_ExecReq = session c, Statement = q\<rparr>]"
  by (simp add: Query_def exec_request Let_def split: prod.splits option.splits outcome.splits)

lemma Exec_log:
  "thrift c = Some cl \<Longrightarrow>
   snd (Exec e c q log) =
     log @ [ExecuteStatementCall cl \<lparr>SessionHandle_ExecReq = session c, Statement = q\<rparr>]"
  by (simp add: Exec_def exec_request Let_def split: prod.splits option.splits outcome.splits)

lemma closed_session: "\<not> isOpen c \<Longrightarrow> session c = None"
  by (simp add: isOpen_def)

section \<open>Statements on a closed connection\<close>

text \<open>
  Claim C1 says that on a closed connection \<open>Query\<close> and \<open>Exec\<close> fail with a session
  error and issue no execute-statement call. The code has no such check: \<open>isOpen\<close> is
  consulted by \<open>Close\<close> only. Here, on the closed connection, \<open>Query\<close> sends the
  statement with a nil session handle and reports what the server said, and \<open>Exec\<close>
  sends it and, the server accepting, returns the response with a nil error.
\<close>

theorem closed_connection_counterexample:
  "\<not> isOpen closed_conn
   \<and> Query refusing_server closed_conn ''SELECT 1'' [] =
       (Returns (None, Some (errors_New
          ''Error from server: TStatus({StatusCode:ERROR_STATUS})'')),
        [ExecuteStatementCall local_client
           \<lparr>SessionHandle_ExecReq = None, Statement = ''SELECT 1''\<rparr>])
   \<and> Exec healthy_server closed_conn ''SELECT 1'' [] =
       (Returns (Some \<lparr>Status_ExecResp = Some ok_status,
                       OperationHandle_ExecResp = Some (OperationId 1),
                       text_ExecResp = ''{Status:ok}''\<rparr>, None),
        [ExecuteStatementCall local_client
           \<lparr>SessionHandle_ExecReq = None, Statement = ''SELECT 1''\<rparr>])"
  by (simp add: isOpen_def closed_conn_def Query_def Exec_def exec_request refusing_server_def
      healthy_server_def isSuccessStatus_def GetStatusCode_def error_status_def ok_status_def
      Errorf_def errors_New_def string_operand_def TStatus_String_def)

text \<open>
  Claim C1, amended: on every closed connection that holds a client, \<open>Query\<close> and
  \<open>Exec\<close> each issue exactly one execute-statement call, whose request carries a nil
  session handle and the statement; and when the reply to it has a success status they
  succeed, \<open>Query\<close> with a row set for the reply's operation handle and \<open>Exec\<close> with
  the reply.
\<close>

theorem closed_connection_still_executes:
  assumes "\<not> isOpen c" and "thrift c = Some cl"
  shows "snd (Query e c q log) =
           log @ [ExecuteStatementCall cl \<lparr>SessionHandle_ExecReq = None, Statement = q\<rparr>]
       \<and> snd (Exec e c q log) =
           log @ [ExecuteStatementCall cl \<lparr>SessionHandle_ExecReq = None, Statement = q\<rparr>]
       \<and> (executeStatement e log cl \<lparr>SessionHandle_ExecReq = None, Statement = q\<rparr>
             = (Some r, None)
           \<and> Status_ExecResp r = Some st
           \<and> (StatusCode st = SUCCESS_STATUS \<or> StatusCode st = SUCCESS_WITH_INFO_STATUS)
           \<longrightarrow> fst (Query e c q log) =
                 Returns (Some (newRowSet (Some cl) (OperationHandle_ExecResp r) (options c)),
                          None)
             \<and> fst (Exec e c q log) = Returns (Some r, None))"
proof -
  from assms(1) have nil: "session c = None" by (rule closed_session)
  have logs: "snd (Query e c q log) =
           log @ [ExecuteStatementCall cl \<lparr>SessionHandle_ExecReq = None, Statement = q\<rparr>]"
    "snd (Exec e c q log) =
           log @ [ExecuteStatementCall cl \<lparr>SessionHandle_ExecReq = None, Statement = q\<rparr>]"
    using assms(2) nil by (simp_all add: Query_log Exec_log)
  have results: "fst (Query e c q log) =
                 Returns (Some (newRowSet (Some cl) (OperationHandle_ExecResp r) (options c)),
                          None)
             \<and> fst (Exec e c q log) = Returns (Some r, None)"
    if reply: "executeStatement e log cl \<lparr>SessionHandle_ExecReq = None, Statement = q\<rparr>
             = (Some r, None)"
      and status: "Status_ExecResp r = Some st"
      and code: "StatusCode st = SUCCESS_STATUS \<or> StatusCode st = SUCCESS_WITH_INFO_STATUS"
  proof -
    from reply nil have reply':
      "executeStatement e log cl \<lparr>SessionHandle_ExecReq = session c, Statement = q\<rparr>
         = (Some r, None)" by simp
    show ?thesis
      using Query_status [OF assms(2) reply' status] Exec_status [OF assms(2) reply' status]
        code
      by auto
  qed
  from logs results show ?thesis by blast
qed

theorem closed_connection_still_executes_witness:
  "\<not> isOpen closed_conn \<and> thrift closed_conn = Some local_client
   \<and> executeStatement healthy_server [] local_client
        \<lparr>SessionHandle_ExecReq = None, Statement = ''SELECT 1''\<rparr>
       = (Some \<lparr>Status_ExecResp = Some ok_status,
                OperationHandle_ExecResp = Some (OperationId 1),
                text_ExecResp = ''{Status:ok}''\<rparr>, None)
   \<and> StatusCode ok_status = SUCCESS_STATUS
   \<and> snd (Query healthy_server closed_conn ''SELECT 1'' []) =
       [ExecuteStatementCall local_client
          \<lparr>SessionHandle_ExecReq = None, Statement = ''SELECT 1''\<rparr>]
   \<and> fst (Query healthy_server closed_conn ''SELECT 1'' []) =
       Returns (Some (newRowSet (Some local_client) (Some (OperationId 1)) DefaultOptions),
                None)"
proof -
  have closed: "\<not> isOpen closed_conn" and client: "thrift closed_conn = Some local_client"
    by (simp_all add: isOpen_def closed_conn_def)
  have reply: "executeStatement healthy_server [] local_client
        \<lparr>SessionHandle_ExecReq = None, Statement = ''SELECT 1''\<rparr>
       = (Some \<lparr>Status_ExecResp = Some ok_status,
                OperationHandle_ExecResp = Some (OperationId 1),
                text_ExecResp = ''{Status:ok}''\<rparr>, None)"
    by (simp add: healthy_server_def)
  have code: "StatusCode ok_status = SUCCESS_STATUS" by (simp add: ok_status_def)
  have opts: "options closed_conn = DefaultOptions" by (simp add: closed_conn_def)
  show ?thesis
    using closed_connection_still_executes
      [OF closed client, of healthy_server "''SELECT 1''" "[]"
         "\<lparr>Status_ExecResp = Some ok_status,
           OperationHandle_ExecResp = Some (OperationId 1),
           text_ExecResp = ''{Status:ok}''\<rparr>" ok_status]
      closed client reply code opts
    by simp
qed

section \<open>Close\<close>

text \<open>
  Claim C2 says that when the close-session call fails, \<open>Close\<close> returns an error
  and also marks the session closed locally. The code returns from inside the error
  branch, before the assignment \<open>c.session = nil\<close>. Here the connection is open, the
  call fails with \<open>EOF\<close>, \<open>Close\<close> returns an error, and the connection is still
  open afterwards.
\<close>

theorem failed_close_counterexample:
  "isOpen open_conn
   \<and> closeSession broken_link [] local_client
         \<lparr>SessionHandle_CloseReq = Some (SessionId 7)\<rparr> = (None, Some eof_error)
   \<and> Close broken_link open_conn [] =
       (Returns (Some (errors_New
          ''Error closing session: %!(EXTRA *inf.TCloseSessionResp=<nil>, thrift.tTransportException=EOF)'')),
        open_conn,
        [CloseSessionCall local_client \<lparr>SessionHandle_CloseReq = Some (SessionId 7)\<rparr>])
   \<and> isOpen (fst (snd (Close broken_link open_conn [])))"
  by (simp add: isOpen_def open_conn_def Close_def close_request broken_link_def
      Errorf_def errors_New_def close_resp_operand_def error_operand_def eof_error_def
      TCloseSessionResp_String_def)

text \<open>
  Claim C2, amended: on every open connection that holds a client, when the
  close-session call fails, \<open>Close\<close> returns an error and leaves the connection as it
  was: the session handle is kept, the connection is still open, and a later \<open>Close\<close>
  (whatever the server does then) issues the close-session call again with the same
  handle.
\<close>

theorem failed_close_leaves_session_open:
  assumes "isOpen c" and "thrift c = Some cl"
    and "closeSession e log cl \<lparr>SessionHandle_CloseReq = session c\<rparr> = (resp, Some err)"
  shows "(\<exists>er. Close e c log =
             (Returns (Some er), c,
              log @ [CloseSessionCall cl \<lparr>SessionHandle_CloseReq = session c\<rparr>]))
       \<and> isOpen (fst (snd (Close e c log)))
       \<and> snd (snd (Close e' (fst (snd (Close e c log))) log')) =
           log' @ [CloseSessionCall cl \<lparr>SessionHandle_CloseReq = session c\<rparr>]"
proof -
  have first: "Close e c log =
           (Returns (Some (Errorf ''Error closing session: ''
                             [close_resp_operand resp, error_operand err])),
            c, log @ [CloseSessionCall cl \<lparr>SessionHandle_CloseReq = session c\<rparr>])"
    using assms by (rule Close_rpc_fails)
  then have same: "fst (snd (Close e c log)) = c" by simp
  have again: "snd (snd (Close e' c log')) =
           log' @ [CloseSessionCall cl \<lparr>SessionHandle_CloseReq = session c\<rparr>]"
    using assms(1,2) by (rule Close_log_open)
  from first same again assms(1) show ?thesis by simp
qed

theorem failed_close_leaves_session_open_witness:
  "isOpen open_conn \<and> thrift open_conn = Some local_client
   \<and> closeSession broken_link [] local_client
         \<lparr>SessionHandle_CloseReq = session open_conn\<rparr> = (None, Some eof_error)
   \<and> (\<exists>er. Close broken_link open_conn [] =
          (Returns (Some er), open_conn,
           [CloseSessionCall local_client \<lparr>SessionHandle_CloseReq = Some (SessionId 7)\<rparr>]))
   \<and> isOpen (fst (snd (Close broken_link open_conn [])))
   \<and> snd (snd (Close healthy_server (fst (snd (Close broken_link open_conn [])))
         [CloseSessionCall local_client \<lparr>SessionHandle_CloseReq = Some (SessionId 7)\<rparr>])) =
       [CloseSessionCall local_client \<lparr>SessionHandle_CloseReq = Some (SessionId 7)\<rparr>,
        CloseSessionCall local_client \<lparr>SessionHandle_CloseReq = Some (SessionId 7)\<rparr>]"
proof -
  have opened: "isOpen open_conn" and client: "thrift open_conn = Some local_client"
    and handle: "session open_conn = Some (SessionId 7)"
    by (simp_all add: isOpen_def open_conn_def)
  have fails: "closeSession broken_link [] local_client
         \<lparr>SessionHandle_CloseReq = session open_conn\<rparr> = (None, Some eof_error)"
    by (simp add: broken_link_def)
  show ?thesis
    using failed_close_leaves_session_open
      [OF opened client fails, of healthy_server
         "[CloseSessionCall local_client \<lparr>SessionHandle_CloseReq = Some (SessionId 7)\<rparr>]"]
      opened client fails handle
    by simp
qed

text \<open>
  Claim C7: \<open>Close\<close> is idempotent. On every connection that is already closed, a
  further \<open>Close\<close> returns a nil error, issues no call (the log is unchanged) and leaves
  the connection unchanged, whatever the server would have answered.
\<close>

theorem Close_idempotent:
  assumes "\<not> isOpen c"
  shows "Close e c log = (Returns None, c, log)"
  using assms by (simp add: Close_def)

theorem Close_idempotent_witness:
  "\<not> isOpen closed_conn
   \<and> Close broken_link closed_conn [] = (Returns None, closed_conn, [])
   \<and> Close healthy_server (fst (snd (Close healthy_server open_conn [])))
        (snd (snd (Close healthy_server open_conn []))) =
       (Returns None, closed_conn,
        [CloseSessionCall local_client \<lparr>SessionHandle_CloseReq = Some (SessionId 7)\<rparr>])"
proof -
  have closed: "\<not> isOpen closed_conn" by (simp add: isOpen_def closed_conn_def)
  have first: "Close healthy_server open_conn [] =
      (Returns None, closed_conn,
       [CloseSessionCall local_client \<lparr>SessionHandle_CloseReq = Some (SessionId 7)\<rparr>])"
    by (simp add: Close_def close_request isOpen_def open_conn_def closed_conn_def
        healthy_server_def)
  show ?thesis
    using Close_idempotent [OF closed, of broken_link "[]"]
      Close_idempotent [OF closed, of healthy_server
        "[CloseSessionCall local_client \<lparr>SessionHandle_CloseReq = Some (SessionId 7)\<rparr>]"]
      closed first
    by simp
qed

text \<open>
  Claim C8: when the close-session call fails on an open connection, the error that
  \<open>Close\<close> returns includes the response and the underlying error. The format string
  \<open>"Error closing session: "\<close> has no verb for either operand, and \<open>fmt\<close> appends
  operands that no verb consumed as \<open>%!(EXTRA type=value, type=value)\<close>: the text of
  the returned error is the format followed by that, so the text of the response and
  the text of the underlying error are both part of it.
\<close>

theorem Close_error_includes_response_and_cause:
  assumes "isOpen c" and "thrift c = Some cl"
    and "closeSession e log cl \<lparr>SessionHandle_CloseReq = session c\<rparr> = (resp, Some err)"
  shows "\<exists>er. fst (Close e c log) = Returns (Some er)
       \<and> errText er =
           ''Error closing session: %!(EXTRA *inf.TCloseSessionResp=''
             @ TCloseSessionResp_String resp @ '', '' @ errType err @ ''=''
             @ errText err @ '')''
       \<and> sublist (TCloseSessionResp_String resp) (errText er)
       \<and> sublist (errText err) (errText er)"
proof -
  let ?a = "close_resp_operand resp" and ?b = "error_operand err"
  let ?er = "Errorf ''Error closing session: '' [?a, ?b]"
  have "Close e c log =
           (Returns (Some ?er), c,
            log @ [CloseSessionCall cl \<lparr>SessionHandle_CloseReq = session c\<rparr>])"
    using assms by (rule Close_rpc_fails)
  then have returned: "fst (Close e c log) = Returns (Some ?er)" by simp
  have msg: "errText ?er =
      ''Error closing session: %!(EXTRA '' @ goType ?a @ ''='' @ goText ?a @ '', ''
        @ goType ?b @ ''='' @ goText ?b @ '')''"
    by (simp only: Errorf_def doPrintf_closing) (simp add: errors_New_def)
  have parts: "sublist (goText ?a) (errText ?er)" "sublist (goText ?b) (errText ?er)"
    by (simp_all only: msg closing_text_parts)
  have a: "goType ?a = ''*inf.TCloseSessionResp''" "goText ?a = TCloseSessionResp_String resp"
    by (simp_all add: close_resp_operand_def)
  have b: "goType ?b = errType err" "goText ?b = errText err"
    by (simp_all add: error_operand_def)
  from returned msg parts show ?thesis
    unfolding a b by (intro exI [of _ ?er]) simp
qed

theorem Close_error_includes_response_and_cause_witness:
  "isOpen open_conn \<and> thrift open_conn = Some local_client
   \<and> closeSession broken_link [] local_client
         \<lparr>SessionHandle_CloseReq = session open_conn\<rparr> = (None, Some eof_error)
   \<and> (\<exists>er. fst (Close broken_link open_conn []) = Returns (Some er)
        \<and> errText er =
            ''Error closing session: %!(EXTRA *inf.TCloseSessionResp=<nil>, thrift.tTransportException=EOF)''
        \<and> sublist ''<nil>'' (errText er)
        \<and> sublist ''EOF'' (errText er))"
proof -
  have opened: "isOpen open_conn" and client: "thrift open_conn = Some local_client"
    by (simp_all add: isOpen_def open_conn_def)
  have fails: "closeSession broken_link [] local_client
         \<lparr>SessionHandle_CloseReq = session open_conn\<rparr> = (None, Some eof_error)"
    by (simp add: broken_link_def)
  have texts: "TCloseSessionResp_String None = ''<nil>''"
    "errType eof_error = ''thrift.tTransportException''" "errText eof_error = ''EOF''"
    by (simp_all add: TCloseSessionResp_String_def eof_error_def)
  show ?thesis
    using Close_error_includes_response_and_cause [OF opened client fails]
      opened client fails
    by (simp add: texts)
qed

section \<open>The status of a reply\<close>

text \<open>
  Claim C4: over the whole enumeration of status codes, \<open>isSuccessStatus\<close> gives true
  exactly for \<open>SUCCESS_STATUS\<close> and \<open>SUCCESS_WITH_INFO_STATUS\<close>, and false for each of
  the other codes.
\<close>

theorem isSuccessStatus_classification:
  "isSuccessStatus (Some st) =
     Returns (StatusCode st \<in> {SUCCESS_STATUS, SUCCESS_WITH_INFO_STATUS})
   \<and> isSuccessStatus (Some \<lparr>StatusCode = SUCCESS_STATUS, text_Status = t\<rparr>) = Returns True
   \<and> isSuccessStatus (Some \<lparr>StatusCode = SUCCESS_WITH_INFO_STATUS, text_Status = t\<rparr>)
       = Returns True
   \<and> isSuccessStatus (Some \<lparr>StatusCode = STILL_EXECUTING_STATUS, text_Status = t\<rparr>)
       = Returns False
   \<and> isSuccessStatus (Some \<lparr>StatusCode = ERROR_STATUS, text_Status = t\<rparr>) = Returns False
   \<and> isSuccessStatus (Some \<lparr>StatusCode = INVALID_HANDLE_STATUS, text_Status = t\<rparr>)
       = Returns False"
  by (simp add: isSuccessStatus_def GetStatusCode_def)

text \<open>
  Claim C3: when the execute-statement call succeeds at the transport level (a
  response and a nil error) and the response's status has a code that is neither of
  the two success codes, \<open>Query\<close> and \<open>Exec\<close> return an error whose text is
  \<open>Error from server: \<close> followed by the server's status text, and return nothing
  else: no row set and no response.
\<close>

theorem non_success_status_is_application_error:
  assumes "thrift c = Some cl"
    and "executeStatement e log cl \<lparr>SessionHandle_ExecReq = session c, Statement = q\<rparr>
           = (Some r, None)"
    and "Status_ExecResp r = Some st"
    and "StatusCode st \<noteq> SUCCESS_STATUS" and "StatusCode st \<noteq> SUCCESS_WITH_INFO_STATUS"
  shows "fst (Query e c q log) =
           Returns (None, Some (errors_New
             (''Error from server: '' @ TStatus_String (Status_ExecResp r))))
       \<and> fst (Exec e c q log) =
           Returns (None, Some (errors_New
             (''Error from server: '' @ TStatus_String (Status_ExecResp r))))"
  using Query_status [OF assms(1,2,3)] Exec_status [OF assms(1,2,3)] assms(3,4,5)
  by simp

theorem non_success_status_is_application_error_witness:
  "thrift open_conn = Some local_client
   \<and> executeStatement refusing_server [] local_client
        \<lparr>SessionHandle_ExecReq = session open_conn, Statement = ''SELECT 1''\<rparr>
       = (Some \<lparr>Status_ExecResp = Some error_status, OperationHandle_ExecResp = None,
                text_ExecResp = ''{Status:error}''\<rparr>, None)
   \<and> StatusCode error_status \<noteq> SUCCESS_STATUS
   \<and> StatusCode error_status \<noteq> SUCCESS_WITH_INFO_STATUS
   \<and> fst (Query refusing_server open_conn ''SELECT 1'' []) =
       Returns (None, Some (errors_New
         ''Error from server: TStatus({StatusCode:ERROR_STATUS})''))
   \<and> fst (Exec refusing_server open_conn ''SELECT 1'' []) =
       Returns (None, Some (errors_New
         ''Error from server: TStatus({StatusCode:ERROR_STATUS})''))"
proof -
  have client: "thrift open_conn = Some local_client" by (simp add: open_conn_def)
  have reply: "executeStatement refusing_server [] local_client
        \<lparr>SessionHandle_ExecReq = session open_conn, Statement = ''SELECT 1''\<rparr>
       = (Some \<lparr>Status_ExecResp = Some error_status, OperationHandle_ExecResp = None,
                text_ExecResp = ''{Status:error}''\<rparr>, None)"
    by (simp add: refusing_server_def)
  have status: "Status_ExecResp \<lparr>Status_ExecResp = Some error_status,
      OperationHandle_ExecResp = None, text_ExecResp = ''{Status:error}''\<rparr>
      = Some error_status" by simp
  have code: "StatusCode error_status \<noteq> SUCCESS_STATUS"
    "StatusCode error_status \<noteq> SUCCESS_WITH_INFO_STATUS"
    by (simp_all add: error_status_def)
  have shown: "TStatus_String (Some error_status) = ''TStatus({StatusCode:ERROR_STATUS})''"
    by (simp add: error_status_def TStatus_String_def)
  show ?thesis
    using non_success_status_is_application_error [OF client reply status code]
      client reply code
    by (simp add: shown)
qed

text \<open>
  Claim C10: \<open>isSuccessStatus\<close> has a result only for a status that is there. It panics
  exactly on a nil status, and \<open>Query\<close> and \<open>Exec\<close> hand it the status of every
  response that came with a nil error, with no nil check: on a response with a nil
  status both panic instead of returning an error.
\<close>

theorem nil_status_is_dereferenced:
  assumes "thrift c = Some cl"
    and "executeStatement e log cl \<lparr>SessionHandle_ExecReq = session c, Statement = q\<rparr>
           = (Some r, None)"
    and "Status_ExecResp r = None"
  shows "(isSuccessStatus p = Panics) = (p = None)
       \<and> fst (Query e c q log) = Panics
       \<and> fst (Exec e c q log) = Panics"
proof -
  have "(isSuccessStatus p = Panics) = (p = None)"
    by (cases p) (simp_all add: isSuccessStatus_def GetStatusCode_def)
  with nil_status_panics [OF assms] show ?thesis by simp
qed

theorem nil_status_is_dereferenced_witness:
  "thrift open_conn = Some local_client
   \<and> executeStatement statusless_server [] local_client
        \<lparr>SessionHandle_ExecReq = session open_conn, Statement = ''SELECT 1''\<rparr>
       = (Some \<lparr>Status_ExecResp = None, OperationHandle_ExecResp = Some (OperationId 1),
                text_ExecResp = ''{Status:<nil>}''\<rparr>, None)
   \<and> isSuccessStatus None = Panics
   \<and> isSuccessStatus (Some ok_status) \<noteq> Panics
   \<and> fst (Query statusless_server open_conn ''SELECT 1'' []) = Panics
   \<and> fst (Exec statusless_server open_conn ''SELECT 1'' []) = Panics"
proof -
  have client: "thrift open_conn = Some local_client" by (simp add: open_conn_def)
  have reply: "executeStatement statusless_server [] local_client
        \<lparr>SessionHandle_ExecReq = session open_conn, Statement = ''SELECT 1''\<rparr>
       = (Some \<lparr>Status_ExecResp = None, OperationHandle_ExecResp = Some (OperationId 1),
                text_ExecResp = ''{Status:<nil>}''\<rparr>, None)"
    by (simp add: statusless_server_def)
  have status: "Status_ExecResp \<lparr>Status_ExecResp = None,
      OperationHandle_ExecResp = Some (OperationId 1), text_ExecResp = ''{Status:<nil>}''\<rparr>
      = None" by simp
  show ?thesis
    using nil_status_is_dereferenced [OF client reply status, of None]
      nil_status_is_dereferenced [OF client reply status, of "Some ok_status"]
      client reply
    by simp
qed

section \<open>Connect and ConnectWithUser\<close>

text \<open>
  Claim C5 says that when the open-session call succeeds and the reply has no usable
  session handle, \<open>Connect\<close> fails with a session error. The code wraps whatever
  handle the reply has. Here the reply has a success status and no handle, and
  \<open>Connect\<close> returns a connection and a nil error; the connection is the closed one.
\<close>

theorem Connect_without_handle_counterexample:
  "Connect handleless_server ''localhost:10000'' DefaultOptions [] =
     (Returns (Some closed_conn, None),
      [TransportOpen local_socket,
       OpenSessionCall local_client
         \<lparr>ClientProtocol = 6, req_Username = None, req_Password = None\<rparr>])
   \<and> ConnectWithUser handleless_server ''localhost:10000'' ''hive'' ''secret''
       DefaultOptions [] =
     (Returns (Some closed_conn, None),
      [TransportOpen local_socket,
       OpenSessionCall local_client
         \<lparr>ClientProtocol = 6, req_Username = Some ''hive'',
          req_Password = Some ''secret''\<rparr>])"
  by (simp add: Connect_def ConnectWithUser_def NewTSocketConf_def
      NewTBinaryProtocolFactoryConf_def NewTCLIServiceClientFactory_def
      NewTOpenSessionReq_def handleless_server_def healthy_server_def closed_conn_def
      local_client_def local_socket_def client_for_def socket_for_def Let_def)

text \<open>
  Claim C5, amended: when the socket opens and the open-session call returns a reply
  with a nil error, and the reply has no session handle, \<open>Connect\<close> and
  \<open>ConnectWithUser\<close> return a nil error and a connection whose session handle is nil:
  a connection that is not open.
\<close>

theorem Connect_without_handle_returns_closed_connection:
  assumes "transportOpen e log (socket_for hostPort opts) = None"
    and "SessionHandle_OpenResp r = None"
  shows "(openSession e (log @ [TransportOpen (socket_for hostPort opts)])
            (client_for hostPort opts)
            \<lparr>ClientProtocol = 6, req_Username = None, req_Password = None\<rparr>
            = (Some r, None)
          \<longrightarrow> (\<exists>conn. fst (Connect e hostPort opts log) = Returns (Some conn, None)
                 \<and> session conn = None \<and> \<not> isOpen conn))
       \<and> (openSession e (log @ [TransportOpen (socket_for hostPort opts)])
            (client_for hostPort opts)
            \<lparr>ClientProtocol = 6, req_Username = Some u, req_Password = Some p\<rparr>
            = (Some r, None)
          \<longrightarrow> (\<exists>conn. fst (ConnectWithUser e hostPort u p opts log) =
                   Returns (Some conn, None)
                 \<and> session conn = None \<and> \<not> isOpen conn))"
  using Connect_reply [OF assms(1), of r] ConnectWithUser_reply [OF assms(1), of u p r]
    assms(2)
  by (simp add: isOpen_def)

theorem Connect_without_handle_returns_closed_connection_witness:
  "transportOpen handleless_server [] (socket_for ''localhost:10000'' DefaultOptions) = None
   \<and> openSession handleless_server
        [TransportOpen (socket_for ''localhost:10000'' DefaultOptions)]
        (client_for ''localhost:10000'' DefaultOptions)
        \<lparr>ClientProtocol = 6, req_Username = None, req_Password = None\<rparr>
       = (Some \<lparr>Status_OpenResp = Some ok_status, SessionHandle_OpenResp = None\<rparr>, None)
   \<and> openSession handleless_server
        [TransportOpen (socket_for ''localhost:10000'' DefaultOptions)]
        (client_for ''localhost:10000'' DefaultOptions)
        \<lparr>ClientProtocol = 6, req_Username = Some ''hive'', req_Password = Some ''secret''\<rparr>
       = (Some \<lparr>Status_OpenResp = Some ok_status, SessionHandle_OpenResp = None\<rparr>, None)
   \<and> (\<exists>conn. fst (Connect handleless_server ''localhost:10000'' DefaultOptions []) =
          Returns (Some conn, None) \<and> session conn = None \<and> \<not> isOpen conn)
   \<and> (\<exists>conn. fst (ConnectWithUser handleless_server ''localhost:10000'' ''hive''
                     ''secret'' DefaultOptions []) =
          Returns (Some conn, None) \<and> session conn = None \<and> \<not> isOpen conn)"
proof -
  have opens: "transportOpen handleless_server []
      (socket_for ''localhost:10000'' DefaultOptions) = None"
    by (simp add: handleless_server_def healthy_server_def)
  have handle: "SessionHandle_OpenResp
      \<lparr>Status_OpenResp = Some ok_status, SessionHandle_OpenResp = None\<rparr> = None"
    by simp
  have replies: "openSession handleless_server log cl req
       = (Some \<lparr>Status_OpenResp = Some ok_status, SessionHandle_OpenResp = None\<rparr>, None)"
    for log cl req
    by (simp add: handleless_server_def)
  show ?thesis
    using Connect_without_handle_returns_closed_connection
      [OF opens handle, of "''hive''" "''secret''"] opens
    by (simp only: replies append_Nil simp_thms)
qed

text \<open>
  Claim C6 says that the status of the reply is classified after every call that
  carries one, open-session and close-session included, and that a non-success code
  makes the operation fail. The code classifies the status after execute-statement
  only. Here every reply carries \<open>ERROR_STATUS\<close>, which \<open>isSuccessStatus\<close> rejects, and
  yet \<open>Connect\<close> returns a connection with a nil error, and \<open>Close\<close> returns a nil
  error and closes the connection.
\<close>

theorem unchecked_status_counterexample:
  "isSuccessStatus (Some error_status) = Returns False
   \<and> openSession refusing_server [TransportOpen local_socket] local_client
        \<lparr>ClientProtocol = 6, req_Username = None, req_Password = None\<rparr>
       = (Some \<lparr>Status_OpenResp = Some error_status, SessionHandle_OpenResp = None\<rparr>, None)
   \<and> fst (Connect refusing_server ''localhost:10000'' DefaultOptions []) =
       Returns (Some closed_conn, None)
   \<and> closeSession refusing_server [] local_client
        \<lparr>SessionHandle_CloseReq = Some (SessionId 7)\<rparr>
       = (Some \<lparr>Status_CloseResp = Some error_status, text_CloseResp = ''{Status:error}''\<rparr>,
          None)
   \<and> Close refusing_server open_conn [] =
       (Returns None, closed_conn,
        [CloseSessionCall local_client \<lparr>SessionHandle_CloseReq = Some (SessionId 7)\<rparr>])"
  by (simp add: isSuccessStatus_def GetStatusCode_def error_status_def
      Connect_def NewTSocketConf_def NewTBinaryProtocolFactoryConf_def
      NewTCLIServiceClientFactory_def NewTOpenSessionReq_def refusing_server_def
      closed_conn_def open_conn_def local_client_def local_socket_def client_for_def
      socket_for_def Let_def Close_def close_request isOpen_def)

text \<open>
  Claim C6, amended: only after the execute-statement call is the status of the reply
  classified with \<open>isSuccessStatus\<close>: when that call returns a reply with a nil error
  and a status, \<open>Query\<close> and \<open>Exec\<close> succeed for the two success codes and fail with
  the server's status text for any other code. \<open>Connect\<close>, \<open>ConnectWithUser\<close> and
  \<open>Close\<close> never read the status: when their call returns a nil error they succeed,
  whatever status the reply carries: \<open>Connect\<close> and \<open>ConnectWithUser\<close> wrap the
  reply's handle, and \<open>Close\<close> returns a nil error and clears the session handle.
\<close>

theorem status_is_classified_after_execute_only:
  "(thrift c = Some cl
    \<and> executeStatement e log cl \<lparr>SessionHandle_ExecReq = session c, Statement = q\<rparr>
        = (Some r, None)
    \<and> Status_ExecResp r = Some st
    \<longrightarrow> fst (Query e c q log) =
          (if StatusCode st = SUCCESS_STATUS \<or> StatusCode st = SUCCESS_WITH_INFO_STATUS
           then Returns (Some (newRowSet (Some cl) (OperationHandle_ExecResp r) (options c)),
                         None)
           else Returns (None, Some (errors_New
                  (''Error from server: '' @ TStatus_String (Some st)))))
      \<and> fst (Exec e c q log) =
          (if StatusCode st = SUCCESS_STATUS \<or> StatusCode st = SUCCESS_WITH_INFO_STATUS
           then Returns (Some r, None)
           else Returns (None, Some (errors_New
                  (''Error from server: '' @ TStatus_String (Some st))))))
   \<and> (transportOpen e log (socket_for hostPort opts) = None
      \<and> openSession e (log @ [TransportOpen (socket_for hostPort opts)])
          (client_for hostPort opts)
          \<lparr>ClientProtocol = 6, req_Username = None, req_Password = None\<rparr>
          = (Some \<lparr>Status_OpenResp = any_status, SessionHandle_OpenResp = h\<rparr>, None)
      \<longrightarrow> fst (Connect e hostPort opts log) =
            Returns (Some \<lparr>thrift = Some (client_for hostPort opts), session = h,
                           options = opts\<rparr>, None))
   \<and> (transportOpen e log (socket_for hostPort opts) = None
      \<and> openSession e (log @ [TransportOpen (socket_for hostPort opts)])
          (client_for hostPort opts)
          \<lparr>ClientProtocol = 6, req_Username = Some u, req_Password = Some p\<rparr>
          = (Some \<lparr>Status_OpenResp = any_status, SessionHandle_OpenResp = h\<rparr>, None)
      \<longrightarrow> fst (ConnectWithUser e hostPort u p opts log) =
            Returns (Some \<lparr>thrift = Some (client_for hostPort opts), session = h,
                           options = opts\<rparr>, None))
   \<and> (isOpen c \<and> thrift c = Some cl
      \<and> closeSession e log cl \<lparr>SessionHandle_CloseReq = session c\<rparr> = (any_reply, None)
      \<longrightarrow> Close e c log =
            (Returns None, c\<lparr>session := None\<rparr>,
             log @ [CloseSessionCall cl \<lparr>SessionHandle_CloseReq = session c\<rparr>]))"
proof (intro conjI impI; elim conjE)
  assume client: "thrift c = Some cl"
    and reply: "executeStatement e log cl
        \<lparr>SessionHandle_ExecReq = session c, Statement = q\<rparr> = (Some r, None)"
    and status: "Status_ExecResp r = Some st"
  from client reply status show "fst (Query e c q log) =
          (if StatusCode st = SUCCESS_STATUS \<or> StatusCode st = SUCCESS_WITH_INFO_STATUS
           then Returns (Some (newRowSet (Some cl) (OperationHandle_ExecResp r) (options c)),
                         None)
           else Returns (None, Some (errors_New
                  (''Error from server: '' @ TStatus_String (Some st)))))"
    by (rule Query_status)
  from client reply status show "fst (Exec e c q log) =
          (if StatusCode st = SUCCESS_STATUS \<or> StatusCode st = SUCCESS_WITH_INFO_STATUS
           then Returns (Some r, None)
           else Returns (None, Some (errors_New
                  (''Error from server: '' @ TStatus_String (Some st)))))"
    by (rule Exec_status)
next
  assume "transportOpen e log (socket_for hostPort opts) = None"
    and "openSession e (log @ [TransportOpen (socket_for hostPort opts)])
          (client_for hostPort opts)
          \<lparr>ClientProtocol = 6, req_Username = None, req_Password = None\<rparr>
          = (Some \<lparr>Status_OpenResp = any_status, SessionHandle_OpenResp = h\<rparr>, None)"
  then show "fst (Connect e hostPort opts log) =
            Returns (Some \<lparr>thrift = Some (client_for hostPort opts), session = h,
                           options = opts\<rparr>, None)"
    using Connect_reply [of e log hostPort opts
        "\<lparr>Status_OpenResp = any_status, SessionHandle_OpenResp = h\<rparr>"]
    by simp
next
  assume "transportOpen e log (socket_for hostPort opts) = None"
    and "openSession e (log @ [TransportOpen (socket_for hostPort opts)])
          (client_for hostPort opts)
          \<lparr>ClientProtocol = 6, req_Username = Some u, req_Password = Some p\<rparr>
          = (Some \<lparr>Status_OpenResp = any_status, SessionHandle_OpenResp = h\<rparr>, None)"
  then show "fst (ConnectWithUser e hostPort u p opts log) =
            Returns (Some \<lparr>thrift = Some (client_for hostPort opts), session = h,
                           options = opts\<rparr>, None)"
    using ConnectWithUser_reply [of e log hostPort opts u p
        "\<lparr>Status_OpenResp = any_status, SessionHandle_OpenResp = h\<rparr>"]
    by simp
next
  assume "isOpen c" and "thrift c = Some cl"
    and "closeSession e log cl \<lparr>SessionHandle_CloseReq = session c\<rparr> = (any_reply, None)"
  then show "Close e c log =
            (Returns None, c\<lparr>session := None\<rparr>,
             log @ [CloseSessionCall cl \<lparr>SessionHandle_CloseReq = session c\<rparr>])"
    by (rule Close_rpc_succeeds)
qed

theorem status_is_classified_after_execute_only_witness:
  "thrift open_conn = Some local_client \<and> isOpen open_conn
   \<and> executeStatement refusing_server [] local_client
        \<lparr>SessionHandle_ExecReq = session open_conn, Statement = ''SELECT 1''\<rparr>
       = (Some \<lparr>Status_ExecResp = Some error_status, OperationHandle_ExecResp = None,
                text_ExecResp = ''{Status:error}''\<rparr>, None)
   \<and> transportOpen refusing_server [] (socket_for ''localhost:10000'' DefaultOptions) = None
   \<and> openSession refusing_server
        [TransportOpen (socket_for ''localhost:10000'' DefaultOptions)]
        (client_for ''localhost:10000'' DefaultOptions)
        \<lparr>ClientProtocol = 6, req_Username = None, req_Password = None\<rparr>
       = (Some \<lparr>Status_OpenResp = Some error_status, SessionHandle_OpenResp = None\<rparr>, None)
   \<and> closeSession refusing_server [] local_client
        \<lparr>SessionHandle_CloseReq = session open_conn\<rparr>
       = (Some \<lparr>Status_CloseResp = Some error_status, text_CloseResp = ''{Status:error}''\<rparr>,
          None)
   \<and> fst (Exec refusing_server open_conn ''SELECT 1'' []) =
       Returns (None, Some (errors_New
         ''Error from server: TStatus({StatusCode:ERROR_STATUS})''))
   \<and> fst (Connect refusing_server ''localhost:10000'' DefaultOptions []) =
       Returns (Some closed_conn, None)
   \<and> Close refusing_server open_conn [] =
       (Returns None, closed_conn,
        [CloseSessionCall local_client \<lparr>SessionHandle_CloseReq = Some (SessionId 7)\<rparr>])"
proof -
  have client: "thrift open_conn = Some local_client" and opened: "isOpen open_conn"
    and handle: "session open_conn = Some (SessionId 7)"
    and closed: "open_conn\<lparr>session := None\<rparr> = closed_conn"
    and wrapped: "\<lparr>thrift = Some (client_for ''localhost:10000'' DefaultOptions),
        session = None, options = DefaultOptions\<rparr> = closed_conn"
    by (simp_all add: open_conn_def closed_conn_def isOpen_def local_client_def)
  have replies:
    "executeStatement refusing_server log cl ereq
       = (Some \<lparr>Status_ExecResp = Some error_status, OperationHandle_ExecResp = None,
                text_ExecResp = ''{Status:error}''\<rparr>, None)"
    "transportOpen refusing_server log sock = None"
    "openSession refusing_server log cl oreq
       = (Some \<lparr>Status_OpenResp = Some error_status, SessionHandle_OpenResp = None\<rparr>, None)"
    "closeSession refusing_server log cl creq
       = (Some \<lparr>Status_CloseResp = Some error_status, text_CloseResp = ''{Status:error}''\<rparr>,
          None)"
    for log cl ereq sock oreq creq
    by (simp_all add: refusing_server_def)
  have code: "StatusCode error_status = ERROR_STATUS"
    and shown: "TStatus_String (Some error_status) = ''TStatus({StatusCode:ERROR_STATUS})''"
    by (simp_all add: error_status_def TStatus_String_def)
  show ?thesis
    using status_is_classified_after_execute_only
      [where c = open_conn and cl = local_client and e = refusing_server and log = "[]"
         and q = "''SELECT 1''"
         and r = "\<lparr>Status_ExecResp = Some error_status, OperationHandle_ExecResp = None,
                   text_ExecResp = ''{Status:error}''\<rparr>"
         and st = error_status and hostPort = "''localhost:10000''"
         and opts = DefaultOptions and any_status = "Some error_status" and h = None
         and any_reply = "Some \<lparr>Status_CloseResp = Some error_status,
                                text_CloseResp = ''{Status:error}''\<rparr>"]
    by (simp add: client opened handle closed wrapped replies code shown local_client_def)
qed

text \<open>
  Claim C9: \<open>ConnectWithUser\<close> performs the same procedure as \<open>Connect\<close>. Both are
  the one session-open procedure of the specification, with the transport configuration
  taken from the options and the client protocol version 6 on the request:
  \<open>Connect\<close> is that procedure without credentials, \<open>ConnectWithUser\<close> is it with
  the username and password set on the request. So \<open>ConnectWithUser\<close> returns what
  \<open>Connect\<close> returns from a server that sees the request with the two fields filled
  in: nothing else differs.
\<close>

theorem ConnectWithUser_is_Connect_with_credentials:
  "Connect e hostPort opts log = session_open_procedure e hostPort None opts log
   \<and> ConnectWithUser e hostPort username password opts log =
       session_open_procedure e hostPort (Some (username, password)) opts log
   \<and> fst (ConnectWithUser e hostPort username password opts log) =
       fst (Connect
              (e\<lparr>openSession := \<lambda>l cl req.
                   openSession e l cl
                     (req\<lparr>req_Username := Some username, req_Password := Some password\<rparr>)\<rparr>)
              hostPort opts log)"
proof -
  have same: "fst (session_open_procedure e hostPort (Some (username, password)) opts log) =
       fst (session_open_procedure
              (e\<lparr>openSession := \<lambda>l cl req.
                   openSession e l cl
                     (req\<lparr>req_Username := Some username, req_Password := Some password\<rparr>)\<rparr>)
              hostPort None opts log)"
    by (simp add: session_open_procedure_def Let_def split: option.splits prod.splits)
  show ?thesis
    by (simp only: Connect_refines ConnectWithUser_refines same simp_thms)
qed

theorem ConnectWithUser_is_Connect_with_credentials_witness:
  "Connect healthy_server ''localhost:10000'' DefaultOptions [] =
     (Returns (Some open_conn, None),
      [TransportOpen local_socket,
       OpenSessionCall local_client
         \<lparr>ClientProtocol = 6, req_Username = None, req_Password = None\<rparr>])
   \<and> ConnectWithUser healthy_server ''localhost:10000'' ''hive'' ''secret''
       DefaultOptions [] =
     (Returns (Some open_conn, None),
      [TransportOpen local_socket,
       OpenSessionCall local_client
         \<lparr>ClientProtocol = 6, req_Username = Some ''hive'',
          req_Password = Some ''secret''\<rparr>])"
  using ConnectWithUser_is_Connect_with_credentials
    [of healthy_server "''localhost:10000''" DefaultOptions "[]" "''hive''" "''secret''"]
  by (simp add: session_open_procedure_def healthy_server_def open_conn_def
      local_client_def local_socket_def client_for_def socket_for_def Let_def)

end
